theory Spec2Isabelle
  imports Main "HOL-Library.Word" "HOL-Library.Sublist"
begin

section \<open>JavaScript values\<close>

text \<open>
  The adapter, the tool handlers and the REST routes pass untyped JSON values around
  (\<^verbatim>\<open>response.data\<close>, \<^verbatim>\<open>args\<close>, \<^verbatim>\<open>req.body\<close>); the TypeScript
  types are erased at run time. The values are modelled as they are at run time.
  Numbers are restricted to the non-negative integers below \<open>2 ^ 53\<close>: the numbers
  that a double holds exactly and that the engine prints in plain decimal (no fractions,
  no NaN, no exponent form). An object is its list of properties in insertion order, with
  distinct keys.
\<close>

type_synonym js_number = "53 word"

datatype json =
    JUndefined
  | JNull
  | JBool bool
  | JNum js_number
  | JStr string
  | JArr "json list"
  | JObj "(string \<times> json) list"

text \<open>Truthiness, as tested by \<^verbatim>\<open>if\<close>, \<^verbatim>\<open>!\<close>, \<^verbatim>\<open>||\<close>, \<^verbatim>\<open>&&\<close> and \<^verbatim>\<open>?:\<close>.\<close>

fun truthy :: "json \<Rightarrow> bool" where
  "truthy JUndefined = False"
| "truthy JNull = False"
| "truthy (JBool b) = b"
| "truthy (JNum n) = (n \<noteq> 0)"
| "truthy (JStr s) = (s \<noteq> [])"
| "truthy (JArr xs) = True"
| "truthy (JObj kvs) = True"

text \<open>\<^verbatim>\<open>a || b\<close> and \<^verbatim>\<open>a && b\<close> on values (both operands here are free of effects).\<close>

definition js_or :: "json \<Rightarrow> json \<Rightarrow> json" where
  "js_or a b = (if truthy a then a else b)"

definition js_and :: "json \<Rightarrow> json \<Rightarrow> json" where
  "js_and a b = (if truthy a then b else a)"

fun nullish :: "json \<Rightarrow> bool" where
  "nullish JUndefined = True"
| "nullish JNull = True"
| "nullish v = False"

text \<open>
  Reading a named property of a value that is neither \<^verbatim>\<open>undefined\<close> nor
  \<^verbatim>\<open>null\<close>: an object gives the property's value or \<^verbatim>\<open>undefined\<close>; a
  primitive or an array has none of the names the source reads (\<^verbatim>\<open>success\<close>,
  \<^verbatim>\<open>data\<close>, \<^verbatim>\<open>token\<close>, \<^verbatim>\<open>user\<close>, \<^verbatim>\<open>message\<close>, \<^verbatim>\<open>username\<close>,
  \<^verbatim>\<open>password\<close>, \<^verbatim>\<open>email\<close>, \<^verbatim>\<open>role\<close>, \<^verbatim>\<open>userId\<close>, \<^verbatim>\<open>status\<close>).
\<close>

fun lookup :: "json \<Rightarrow> string \<Rightarrow> json" where
  "lookup (JObj kvs) k = (case map_of kvs k of None \<Rightarrow> JUndefined | Some v \<Rightarrow> v)"
| "lookup v k = JUndefined"

text \<open>
  The exceptions that occur: the adapter's \<^verbatim>\<open>EOSApiError(message, statusCode, response)\<close>
  and the engine's \<^verbatim>\<open>TypeError\<close> for a property read on \<^verbatim>\<open>undefined\<close> or
  \<^verbatim>\<open>null\<close>.
\<close>

datatype exn =
    EOSApiError string js_number json
  | TypeError string

text \<open>\<^verbatim>\<open>error.message\<close> and \<^verbatim>\<open>error.statusCode\<close> as a catch block reads them.\<close>

fun exn_message :: "exn \<Rightarrow> json" where
  "exn_message (EOSApiError m s r) = JStr m"
| "exn_message (TypeError m) = JStr m"

fun exn_statusCode :: "exn \<Rightarrow> json" where
  "exn_statusCode (EOSApiError m s r) = JNum s"
| "exn_statusCode (TypeError m) = JUndefined"

fun instanceof_EOSApiError :: "exn \<Rightarrow> bool" where
  "instanceof_EOSApiError (EOSApiError m s r) = True"
| "instanceof_EOSApiError (TypeError m) = False"

text \<open>
  \<^verbatim>\<open>v.k\<close>, which throws on \<^verbatim>\<open>undefined\<close> and \<^verbatim>\<open>null\<close>, and
  \<^verbatim>\<open>v?.k\<close>, which does not. The messages are the engine's (V8), for a property read
  and for a destructuring \<^verbatim>\<open>const { k } = src\<close>.
\<close>

definition type_error_reading :: "json \<Rightarrow> string \<Rightarrow> exn" where
  "type_error_reading v k =
     TypeError (''Cannot read properties of ''
                @ (if v = JNull then ''null'' else ''undefined'')
                @ '' (reading '' @ [CHR 39] @ k @ [CHR 39] @ '')'')"

definition type_error_destructuring :: "json \<Rightarrow> string \<Rightarrow> string \<Rightarrow> exn" where
  "type_error_destructuring v k src =
     TypeError (''Cannot destructure property '' @ [CHR 39] @ k @ [CHR 39] @ '' of ''
                @ [CHR 39] @ src @ [CHR 39] @ '' as it is ''
                @ (if v = JNull then ''null'' else ''undefined'') @ ''.'')"

definition get_prop :: "json \<Rightarrow> string \<Rightarrow> exn + json" where
  "get_prop v k = (if nullish v then Inl (type_error_reading v k) else Inr (lookup v k))"

definition opt_prop :: "json \<Rightarrow> string \<Rightarrow> json" where
  "opt_prop v k = (if nullish v then JUndefined else lookup v k)"

text \<open>Decimal digits of a number, for string conversion.\<close>

fun show_nat :: "nat \<Rightarrow> string" where
  "show_nat n =
     (if n < 10 then [''0123456789'' ! n]
      else show_nat (n div 10) @ [''0123456789'' ! (n mod 10)])"

definition show_number :: "js_number \<Rightarrow> string" where
  "show_number n = show_nat (unat n)"

fun join_with :: "string \<Rightarrow> string list \<Rightarrow> string" where
  "join_with sep [] = []"
| "join_with sep [s] = s"
| "join_with sep (s # t # ss) = s @ sep @ join_with sep (t # ss)"

text \<open>
  String conversion, as a template literal and the \<^verbatim>\<open>Error\<close> constructor apply it;
  \<open>None\<close> stands for the \<^verbatim>\<open>TypeError\<close> it throws. An array joins its elements with
  commas (\<^verbatim>\<open>undefined\<close> and \<^verbatim>\<open>null\<close> elements as empty strings) and throws when
  an element does. An object that owns a property \<^verbatim>\<open>toString\<close> cannot be converted: the
  property's value, being data, is not callable, and the inherited \<^verbatim>\<open>valueOf\<close> (or an
  own one, not callable either) yields no primitive. Any other object is
  \<^verbatim>\<open>[object Object]\<close>.
\<close>

fun to_str :: "json \<Rightarrow> string option" where
  "to_str JUndefined = Some ''undefined''"
| "to_str JNull = Some ''null''"
| "to_str (JBool b) = Some (if b then ''true'' else ''false'')"
| "to_str (JNum n) = Some (show_number n)"
| "to_str (JStr s) = Some s"
| "to_str (JArr xs) =
     map_option (join_with '','')
       (those (map (\<lambda>x. if nullish x then Some [] else to_str x) xs))"
| "to_str (JObj kvs) =
     (if map_of kvs ''toString'' = None then Some ''[object Object]'' else None)"

definition cannot_convert_message :: string where
  "cannot_convert_message = ''Cannot convert object to primitive value''"

definition cannot_convert :: exn where
  "cannot_convert = TypeError cannot_convert_message"

text \<open>
  \<^verbatim>\<open>v.length\<close> for a value that is neither \<^verbatim>\<open>undefined\<close> nor \<^verbatim>\<open>null\<close>
  (an array or a string of the engine is shorter than \<open>2 ^ 53\<close>).
\<close>

fun js_length :: "json \<Rightarrow> json" where
  "js_length (JArr xs) = JNum (of_nat (length xs))"
| "js_length (JStr s) = JNum (of_nat (length s))"
| "js_length v = lookup v ''length''"

section \<open>The transport under the adapter\<close>

text \<open>
  The upstream service and the HTTP library are outside the repository. The upstream is a
  parameter: a function from the request sent to what comes back on the wire, either an
  HTTP response (status and parsed body) or no response at all (connection error or
  timeout, with the library's error message). The library resolves a response whose
  status passes its default \<^verbatim>\<open>validateStatus\<close> (200 to 299) and rejects every
  other outcome with an \<^verbatim>\<open>AxiosError\<close>, which carries \<^verbatim>\<open>response\<close> only when a
  response was received. The library runs the request interceptor, the transport and the
  response interceptor as one promise chain: when the request interceptor throws, nothing
  is sent and the response interceptor's rejection branch receives what was thrown
  (\<open>InterceptorError\<close>, with the message of the \<^verbatim>\<open>TypeError\<close>).
\<close>

datatype http_method = GET | POST | PATCH | DELETE

record request =
  req_method :: http_method
  req_url :: string
  req_body :: json
  req_authorization :: "string option"

datatype wire = HttpResponse js_number json | NoResponse string

type_synonym upstream = "request \<Rightarrow> wire"

datatype axios_error =
    AxiosError string "(js_number \<times> json) option"
  | InterceptorError string

definition validateStatus :: "js_number \<Rightarrow> bool" where
  "validateStatus s = (200 \<le> s \<and> s < 300)"

definition axios_dispatch :: "upstream \<Rightarrow> request \<Rightarrow> axios_error + (js_number \<times> json)" where
  "axios_dispatch up config =
     (case up config of
        HttpResponse s d \<Rightarrow>
          if validateStatus s then Inr (s, d)
          else Inl (AxiosError (''Request failed with status code '' @ show_number s) (Some (s, d)))
      | NoResponse m \<Rightarrow> Inl (AxiosError m None))"

section \<open>The adapter: \<^verbatim>\<open>EOSApiService\<close>\<close>

text \<open>
  The class has one mutable field, \<^verbatim>\<open>authToken\<close> (initially \<^verbatim>\<open>null\<close>). The field
  \<open>sent\<close> is a ghost: the requests handed to the transport so far, oldest first.
\<close>

record adapter =
  authToken :: json
  sent :: "request list"

definition new_adapter :: adapter where
  "new_adapter = \<lparr>authToken = JNull, sent = []\<rparr>"

text \<open>
  What \<^verbatim>\<open>throw new EOSApiError(message, statusCode, response)\<close> throws:
  \<^verbatim>\<open>super(message)\<close> converts the message to a string (an \<^verbatim>\<open>undefined\<close> message
  gives the empty one), and where that conversion throws, its \<^verbatim>\<open>TypeError\<close> is what
  leaves the expression.
\<close>

definition new_EOSApiError :: "json \<Rightarrow> js_number \<Rightarrow> json \<Rightarrow> exn" where
  "new_EOSApiError m s r =
     (if m = JUndefined then EOSApiError [] s r
      else case to_str m of
             None \<Rightarrow> cannot_convert
           | Some t \<Rightarrow> EOSApiError t s r)"

text \<open>
  The request interceptor adds the bearer header when a token is stored; \<open>None\<close> when
  the template literal throws on the token.
\<close>

definition request_interceptor :: "adapter \<Rightarrow> request \<Rightarrow> request option" where
  "request_interceptor a config =
     (if truthy (authToken a)
      then (case to_str (authToken a) of
              None \<Rightarrow> None
            | Some t \<Rightarrow> Some (config\<lparr>req_authorization := Some (''Bearer '' @ t)\<rparr>))
      else Some config)"

text \<open>
  The response interceptor's rejection branch. A \<^verbatim>\<open>TypeError\<close> has a message and no
  \<^verbatim>\<open>response\<close>.
\<close>

fun response_interceptor :: "axios_error \<Rightarrow> exn" where
  "response_interceptor (AxiosError m (Some (s, d))) =
     new_EOSApiError (js_or (opt_prop d ''message'') (JStr ''API request failed'')) s d"
| "response_interceptor (AxiosError m None) =
     new_EOSApiError (js_or (JStr m) (JStr ''Network error'')) 0 JUndefined"
| "response_interceptor (InterceptorError m) =
     new_EOSApiError (js_or (JStr m) (JStr ''Network error'')) 0 JUndefined"

text \<open>\<^verbatim>\<open>this.api.get/post/patch/delete\<close>: interceptors around the transport.\<close>

definition axios_config :: "http_method \<Rightarrow> string \<Rightarrow> json \<Rightarrow> request" where
  "axios_config m u b = \<lparr>req_method = m, req_url = u, req_body = b, req_authorization = None\<rparr>"

text \<open>
  What the transport receives for a request: the configuration with the bearer header, or
  nothing when the request interceptor throws.
\<close>

definition outgoing :: "adapter \<Rightarrow> request \<Rightarrow> request list" where
  "outgoing a config = (case request_interceptor a config of None \<Rightarrow> [] | Some r \<Rightarrow> [r])"

definition api_request ::
  "upstream \<Rightarrow> adapter \<Rightarrow> http_method \<Rightarrow> string \<Rightarrow> json \<Rightarrow> (exn + (js_number \<times> json)) \<times> adapter" where
  "api_request up a m u b =
     (case request_interceptor a (axios_config m u b) of
        None \<Rightarrow> (Inl (response_interceptor (InterceptorError cannot_convert_message)), a)
      | Some config \<Rightarrow>
          (let a1 = a\<lparr>sent := sent a @ [config]\<rparr>
           in case axios_dispatch up config of
                Inl err \<Rightarrow> (Inl (response_interceptor err), a1)
              | Inr response \<Rightarrow> (Inr response, a1)))"

definition setAuthToken :: "json \<Rightarrow> adapter \<Rightarrow> adapter" where
  "setAuthToken token a = a\<lparr>authToken := token\<rparr>"

definition clearAuthToken :: "adapter \<Rightarrow> adapter" where
  "clearAuthToken a = a\<lparr>authToken := JNull\<rparr>"

text \<open>
  The catch block every method but \<^verbatim>\<open>healthCheck\<close> has:
  \<^verbatim>\<open>if (error instanceof EOSApiError) throw error; throw new EOSApiError(msg, 500)\<close>.
\<close>

definition rethrow :: "string \<Rightarrow> exn \<Rightarrow> exn" where
  "rethrow msg error =
     (if instanceof_EOSApiError error then error else new_EOSApiError (JStr msg) 500 JUndefined)"

text \<open>
  \<^verbatim>\<open>login\<close>. The read \<^verbatim>\<open>response.data.success\<close> throws when the body is
  \<^verbatim>\<open>null\<close> or \<^verbatim>\<open>undefined\<close>; once it has succeeded, \<^verbatim>\<open>response.data.data\<close>
  cannot throw, and \<^verbatim>\<open>response.data.data.token\<close> is read only where
  \<^verbatim>\<open>response.data.data?.token\<close> was truthy.
\<close>

definition login :: "upstream \<Rightarrow> adapter \<Rightarrow> json \<Rightarrow> (exn + json) \<times> adapter" where
  "login up a credentials =
     (case api_request up a POST ''/user/login'' credentials of
        (Inl error, a1) \<Rightarrow> (Inl (rethrow ''Login failed'' error), a1)
      | (Inr (s, d), a1) \<Rightarrow>
          (case get_prop d ''success'' of
             Inl error \<Rightarrow> (Inl (rethrow ''Login failed'' error), a1)
           | Inr success \<Rightarrow>
               if truthy (js_and success (opt_prop (lookup d ''data'') ''token''))
               then (Inr d, setAuthToken (lookup (lookup d ''data'') ''token'') a1)
               else (Inr d, a1)))"

definition getCurrentUser :: "upstream \<Rightarrow> adapter \<Rightarrow> (exn + json) \<times> adapter" where
  "getCurrentUser up a =
     (case api_request up a GET ''/user/profile'' JUndefined of
        (Inl error, a1) \<Rightarrow> (Inl (rethrow ''Failed to get user profile'' error), a1)
      | (Inr (s, d), a1) \<Rightarrow>
          (case get_prop d ''data'' of
             Inl error \<Rightarrow> (Inl (rethrow ''Failed to get user profile'' error), a1)
           | Inr user \<Rightarrow> (Inr user, a1)))"

definition getUsers :: "upstream \<Rightarrow> adapter \<Rightarrow> (exn + json) \<times> adapter" where
  "getUsers up a =
     (case api_request up a GET ''/users'' JUndefined of
        (Inl error, a1) \<Rightarrow> (Inl (rethrow ''Failed to get users'' error), a1)
      | (Inr (s, d), a1) \<Rightarrow>
          (case get_prop d ''data'' of
             Inl error \<Rightarrow> (Inl (rethrow ''Failed to get users'' error), a1)
           | Inr users \<Rightarrow> (Inr (js_or users (JArr [])), a1)))"

definition inviteUser :: "upstream \<Rightarrow> adapter \<Rightarrow> json \<Rightarrow> (exn + json) \<times> adapter" where
  "inviteUser up a inviteData =
     (case api_request up a POST ''/users/invite'' inviteData of
        (Inl error, a1) \<Rightarrow> (Inl (rethrow ''Failed to invite user'' error), a1)
      | (Inr (s, d), a1) \<Rightarrow> (Inr d, a1))"

text \<open>
  \<^verbatim>\<open>updateUserStatus\<close> and \<^verbatim>\<open>deleteUser\<close> build the path with a template literal
  inside the \<^verbatim>\<open>try\<close>: where the conversion of \<^verbatim>\<open>userId\<close> throws, no request is
  made and the catch block answers.
\<close>

definition updateUserStatus :: "upstream \<Rightarrow> adapter \<Rightarrow> json \<Rightarrow> json \<Rightarrow> (exn + json) \<times> adapter" where
  "updateUserStatus up a userId status =
     (case to_str userId of
        None \<Rightarrow> (Inl (rethrow ''Failed to update user status'' cannot_convert), a)
      | Some u \<Rightarrow>
          (case api_request up a PATCH (''/users/'' @ u @ ''/status'')
                  (JObj [(''status'', status)]) of
             (Inl error, a1) \<Rightarrow> (Inl (rethrow ''Failed to update user status'' error), a1)
           | (Inr (s, d), a1) \<Rightarrow> (Inr d, a1)))"

definition deleteUser :: "upstream \<Rightarrow> adapter \<Rightarrow> json \<Rightarrow> (exn + json) \<times> adapter" where
  "deleteUser up a userId =
     (case to_str userId of
        None \<Rightarrow> (Inl (rethrow ''Failed to delete user'' cannot_convert), a)
      | Some u \<Rightarrow>
          (case api_request up a DELETE (''/users/'' @ u) JUndefined of
             (Inl error, a1) \<Rightarrow> (Inl (rethrow ''Failed to delete user'' error), a1)
           | (Inr (s, d), a1) \<Rightarrow> (Inr d, a1)))"

definition healthCheck :: "upstream \<Rightarrow> adapter \<Rightarrow> (exn + json) \<times> adapter" where
  "healthCheck up a =
     (case api_request up a GET ''/health'' JUndefined of
        (Inl error, a1) \<Rightarrow> (Inr (JBool False), a1)
      | (Inr response, a1) \<Rightarrow> (Inr (JBool True), a1))"

text \<open>
  The public methods that call the upstream, as data, so that a statement can range over
  them: \<open>call_config\<close> is the request a method builds (none where building the path
  throws), \<open>run_call\<close> runs it.
\<close>

datatype adapter_call =
    Login json
  | GetCurrentUser
  | GetUsers
  | InviteUser json
  | UpdateUserStatus json json
  | DeleteUser json
  | HealthCheck

fun call_config :: "adapter_call \<Rightarrow> request option" where
  "call_config (Login credentials) = Some (axios_config POST ''/user/login'' credentials)"
| "call_config GetCurrentUser = Some (axios_config GET ''/user/profile'' JUndefined)"
| "call_config GetUsers = Some (axios_config GET ''/users'' JUndefined)"
| "call_config (InviteUser inviteData) = Some (axios_config POST ''/users/invite'' inviteData)"
| "call_config (UpdateUserStatus userId status) =
     map_option (\<lambda>u. axios_config PATCH (''/users/'' @ u @ ''/status'') (JObj [(''status'', status)]))
       (to_str userId)"
| "call_config (DeleteUser userId) =
     map_option (\<lambda>u. axios_config DELETE (''/users/'' @ u) JUndefined) (to_str userId)"
| "call_config HealthCheck = Some (axios_config GET ''/health'' JUndefined)"

text \<open>The request a call hands to the transport, if it gets that far.\<close>

definition call_request :: "adapter \<Rightarrow> adapter_call \<Rightarrow> request option" where
  "call_request a c = Option.bind (call_config c) (request_interceptor a)"

fun run_call :: "upstream \<Rightarrow> adapter \<Rightarrow> adapter_call \<Rightarrow> (exn + json) \<times> adapter" where
  "run_call up a (Login credentials) = login up a credentials"
| "run_call up a GetCurrentUser = getCurrentUser up a"
| "run_call up a GetUsers = getUsers up a"
| "run_call up a (InviteUser inviteData) = inviteUser up a inviteData"
| "run_call up a (UpdateUserStatus userId status) = updateUserStatus up a userId status"
| "run_call up a (DeleteUser userId) = deleteUser up a userId"
| "run_call up a HealthCheck = healthCheck up a"

section \<open>The tool registry: \<^verbatim>\<open>MCPTools\<close>\<close>

text \<open>
  A handler is a closure over the adapter: here it takes the upstream and the adapter's
  state and returns its settled value (\<open>Inr\<close>) or the exception it throws (\<open>Inl\<close>),
  with the adapter's new state.
\<close>

type_synonym handler_fn = "upstream \<Rightarrow> adapter \<Rightarrow> json \<Rightarrow> (exn + json) \<times> adapter"

record MCPTool =
  name :: string
  description :: string
  inputSchema :: json
  handler :: handler_fn

text \<open>
  The object every handler's catch block returns, with the handler's own default message:
  \<^verbatim>\<open>{success: false, message: error.message || dflt, error: error.statusCode || 500}\<close>.
\<close>

definition failure_envelope :: "string \<Rightarrow> exn \<Rightarrow> json" where
  "failure_envelope dflt error =
     JObj [(''success'', JBool False),
           (''message'', js_or (exn_message error) (JStr dflt)),
           (''error'', js_or (exn_statusCode error) (JNum 500))]"

definition login_handler :: handler_fn where
  "login_handler up a args =
     (case login up a args of
        (Inl error, a1) \<Rightarrow> (Inr (failure_envelope ''Login failed'' error), a1)
      | (Inr result, a1) \<Rightarrow>
          (case get_prop result ''data'' of
             Inl error \<Rightarrow> (Inr (failure_envelope ''Login failed'' error), a1)
           | Inr d \<Rightarrow>
               (Inr (JObj [(''success'', JBool True),
                           (''message'', JStr ''Login successful''),
                           (''data'', JObj [(''user'', opt_prop d ''user''),
                                            (''token'', if truthy (opt_prop d ''token'')
                                                        then JStr ''***'' else JUndefined)])]),
                a1)))"

definition current_user_handler :: handler_fn where
  "current_user_handler up a args =
     (case getCurrentUser up a of
        (Inl error, a1) \<Rightarrow> (Inr (failure_envelope ''Failed to get user profile'' error), a1)
      | (Inr user, a1) \<Rightarrow>
          (Inr (JObj [(''success'', JBool True),
                      (''message'', JStr ''User profile retrieved successfully''),
                      (''data'', user)]),
           a1))"

definition users_handler :: handler_fn where
  "users_handler up a args =
     (case getUsers up a of
        (Inl error, a1) \<Rightarrow> (Inr (failure_envelope ''Failed to get users'' error), a1)
      | (Inr users, a1) \<Rightarrow>
          (if nullish users
           then (Inr (failure_envelope ''Failed to get users'' (type_error_reading users ''length'')), a1)
           else (case to_str (js_length users) of
                   None \<Rightarrow> (Inr (failure_envelope ''Failed to get users'' cannot_convert), a1)
                 | Some n \<Rightarrow>
                     (Inr (JObj [(''success'', JBool True),
                                 (''message'', JStr (''Retrieved '' @ n @ '' users'')),
                                 (''data'', users)]),
                      a1))))"

definition invite_user_handler :: handler_fn where
  "invite_user_handler up a args =
     (case inviteUser up a args of
        (Inl error, a1) \<Rightarrow> (Inr (failure_envelope ''Failed to invite user'' error), a1)
      | (Inr result, a1) \<Rightarrow>
          (Inr (JObj [(''success'', JBool True),
                      (''message'', JStr ''User invited successfully''),
                      (''data'', result)]),
           a1))"

text \<open>
  \<^verbatim>\<open>args.userId\<close> is read inside the \<^verbatim>\<open>try\<close>, before the adapter is called: when
  \<^verbatim>\<open>args\<close> is \<^verbatim>\<open>undefined\<close> or \<^verbatim>\<open>null\<close> the read throws and the catch block
  answers. The success message converts \<^verbatim>\<open>args.status\<close> to a string after the adapter
  has returned; where that throws, the catch block answers too.
\<close>

definition update_user_status_handler :: handler_fn where
  "update_user_status_handler up a args =
     (case get_prop args ''userId'' of
        Inl error \<Rightarrow> (Inr (failure_envelope ''Failed to update user status'' error), a)
      | Inr userId \<Rightarrow>
          (case updateUserStatus up a userId (lookup args ''status'') of
             (Inl error, a1) \<Rightarrow> (Inr (failure_envelope ''Failed to update user status'' error), a1)
           | (Inr result, a1) \<Rightarrow>
               (case to_str (lookup args ''status'') of
                  None \<Rightarrow>
                    (Inr (failure_envelope ''Failed to update user status'' cannot_convert), a1)
                | Some st \<Rightarrow>
                    (Inr (JObj [(''success'', JBool True),
                                (''message'', JStr (''User status updated to '' @ st)),
                                (''data'', result)]),
                     a1))))"

definition delete_user_handler :: handler_fn where
  "delete_user_handler up a args =
     (case get_prop args ''userId'' of
        Inl error \<Rightarrow> (Inr (failure_envelope ''Failed to delete user'' error), a)
      | Inr userId \<Rightarrow>
          (case deleteUser up a userId of
             (Inl error, a1) \<Rightarrow> (Inr (failure_envelope ''Failed to delete user'' error), a1)
           | (Inr result, a1) \<Rightarrow>
               (Inr (JObj [(''success'', JBool True),
                           (''message'', JStr ''User deleted successfully''),
                           (''data'', result)]),
                a1)))"

text \<open>The health tool reads the clock; \<open>now\<close> is \<^verbatim>\<open>new Date().toISOString()\<close>.\<close>

definition health_check_handler :: "string \<Rightarrow> handler_fn" where
  "health_check_handler now up a args =
     (case healthCheck up a of
        (Inl error, a1) \<Rightarrow> (Inr (failure_envelope ''Health check failed'' error), a1)
      | (Inr isHealthy, a1) \<Rightarrow>
          (Inr (JObj [(''success'', JBool True),
                      (''message'', JStr (if truthy isHealthy then ''EOS API is healthy''
                                          else ''EOS API is not responding'')),
                      (''data'', JObj [(''status'', JStr (if truthy isHealthy then ''healthy''
                                                          else ''unhealthy'')),
                                       (''timestamp'', JStr now)])]),
           a1))"

text \<open>The input schemas, as the object literals of the source.\<close>

definition string_property :: "string \<Rightarrow> json" where
  "string_property d = JObj [(''type'', JStr ''string''), (''description'', JStr d)]"

definition enum_property :: "string \<Rightarrow> string list \<Rightarrow> json" where
  "enum_property d vs =
     JObj [(''type'', JStr ''string''), (''description'', JStr d), (''enum'', JArr (map JStr vs))]"

definition object_schema :: "(string \<times> json) list \<Rightarrow> string list \<Rightarrow> json" where
  "object_schema ps req =
     JObj [(''type'', JStr ''object''), (''properties'', JObj ps), (''required'', JArr (map JStr req))]"

definition getLoginTool :: MCPTool where
  "getLoginTool =
     \<lparr>name = ''eos_login'',
      description = ''Authenticate user with EOS API using username and password'',
      inputSchema = object_schema
        [(''username'', string_property ''User email or username''),
         (''password'', string_property ''User password'')]
        [''username'', ''password''],
      handler = login_handler\<rparr>"

definition getCurrentUserTool :: MCPTool where
  "getCurrentUserTool =
     \<lparr>name = ''eos_get_current_user'',
      description = ''Get current authenticated user profile'',
      inputSchema = object_schema [] [],
      handler = current_user_handler\<rparr>"

definition getUsersTool :: MCPTool where
  "getUsersTool =
     \<lparr>name = ''eos_get_users'',
      description = ''Get all users (admin only)'',
      inputSchema = object_schema [] [],
      handler = users_handler\<rparr>"

definition getInviteUserTool :: MCPTool where
  "getInviteUserTool =
     \<lparr>name = ''eos_invite_user'',
      description = ''Invite a new user to the system'',
      inputSchema = object_schema
        [(''email'', string_property ''Email address of the user to invite''),
         (''role'', enum_property ''Role to assign to the user'' [''admin'', ''manager'', ''user'']),
         (''firstName'', string_property ''First name of the user''),
         (''lastName'', string_property ''Last name of the user'')]
        [''email'', ''role''],
      handler = invite_user_handler\<rparr>"

definition getUpdateUserStatusTool :: MCPTool where
  "getUpdateUserStatusTool =
     \<lparr>name = ''eos_update_user_status'',
      description = ''Update user status (active/inactive)'',
      inputSchema = object_schema
        [(''userId'', string_property ''ID of the user to update''),
         (''status'', enum_property ''New status for the user'' [''active'', ''inactive''])]
        [''userId'', ''status''],
      handler = update_user_status_handler\<rparr>"

definition getDeleteUserTool :: MCPTool where
  "getDeleteUserTool =
     \<lparr>name = ''eos_delete_user'',
      description = ''Delete a user from the system'',
      inputSchema = object_schema
        [(''userId'', string_property ''ID of the user to delete'')]
        [''userId''],
      handler = delete_user_handler\<rparr>"

definition getHealthCheckTool :: "string \<Rightarrow> MCPTool" where
  "getHealthCheckTool now =
     \<lparr>name = ''eos_health_check'',
      description = ''Check EOS API connectivity and health'',
      inputSchema = object_schema [] [],
      handler = health_check_handler now\<rparr>"

definition getTools :: "string \<Rightarrow> MCPTool list" where
  "getTools now =
     [getLoginTool, getCurrentUserTool, getUsersTool, getInviteUserTool,
      getUpdateUserStatusTool, getDeleteUserTool, getHealthCheckTool now]"

section \<open>The REST routes: \<^verbatim>\<open>RestApiServer\<close>\<close>

text \<open>
  A route answers with a status (the argument of \<^verbatim>\<open>res.status\<close>, 200 when the route
  does not set one) and the body given to \<^verbatim>\<open>res.json\<close>.
\<close>

type_synonym reply = "json \<times> json"

definition rest_failure :: "string \<Rightarrow> exn \<Rightarrow> reply" where
  "rest_failure dflt error =
     (js_or (exn_statusCode error) (JNum 500),
      JObj [(''success'', JBool False),
            (''message'', js_or (exn_message error) (JStr dflt)),
            (''error'', js_or (exn_statusCode error) (JNum 500))])"

definition bad_request :: "string \<Rightarrow> reply" where
  "bad_request msg = (JNum 400, JObj [(''success'', JBool False), (''message'', JStr msg)])"

text \<open>\<^verbatim>\<open>POST /auth/login\<close>; \<open>body\<close> is \<^verbatim>\<open>req.body\<close>.\<close>

definition post_auth_login :: "upstream \<Rightarrow> adapter \<Rightarrow> json \<Rightarrow> reply \<times> adapter" where
  "post_auth_login up a body =
     (case get_prop body ''username'' of
        Inl error \<Rightarrow> (rest_failure ''Login failed'' error, a)
      | Inr username \<Rightarrow>
          if \<not> truthy username \<or> \<not> truthy (lookup body ''password'')
          then (bad_request ''Username and password are required'', a)
          else (case login up a body of
                  (Inl error, a1) \<Rightarrow> (rest_failure ''Login failed'' error, a1)
                | (Inr result, a1) \<Rightarrow> ((JNum 200, result), a1)))"

text \<open>\<^verbatim>\<open>POST /users/invite\<close>.\<close>

definition post_users_invite :: "upstream \<Rightarrow> adapter \<Rightarrow> json \<Rightarrow> reply \<times> adapter" where
  "post_users_invite up a body =
     (case get_prop body ''email'' of
        Inl error \<Rightarrow> (rest_failure ''Failed to invite user'' error, a)
      | Inr email \<Rightarrow>
          if \<not> truthy email \<or> \<not> truthy (lookup body ''role'')
          then (bad_request ''Email and role are required'', a)
          else (case inviteUser up a body of
                  (Inl error, a1) \<Rightarrow> (rest_failure ''Failed to invite user'' error, a1)
                | (Inr result, a1) \<Rightarrow> ((JNum 200, result), a1)))"

text \<open>
  \<^verbatim>\<open>PATCH /users/:userId/status\<close>; \<open>userId\<close> is the path parameter, a string, and
  \<^verbatim>\<open>const { status } = req.body\<close> throws when the body is \<^verbatim>\<open>undefined\<close> or
  \<^verbatim>\<open>null\<close>.
\<close>

definition patch_users_status :: "upstream \<Rightarrow> adapter \<Rightarrow> string \<Rightarrow> json \<Rightarrow> reply \<times> adapter" where
  "patch_users_status up a userId body =
     (if nullish body
      then (rest_failure ''Failed to update user status''
              (type_error_destructuring body ''status'' ''req.body''), a)
      else
        (let status = lookup body ''status'' in
          if \<not> truthy status \<or> status \<notin> set [JStr ''active'', JStr ''inactive'']
          then (bad_request ''Valid status (active/inactive) is required'', a)
          else (case updateUserStatus up a (JStr userId) status of
                  (Inl error, a1) \<Rightarrow> (rest_failure ''Failed to update user status'' error, a1)
                | (Inr result, a1) \<Rightarrow> ((JNum 200, result), a1))))"

section \<open>Where a text appears in a value\<close>

text \<open>
  For the statement that a token does not appear in a result: the pieces of text a value
  holds, that is its property names, its strings and its printed primitives, at any depth;
  a text appears in a value when it is a contiguous part of one of them.
\<close>

fun json_texts :: "json \<Rightarrow> string list" where
  "json_texts JUndefined = []"
| "json_texts JNull = [''null'']"
| "json_texts (JBool b) = [if b then ''true'' else ''false'']"
| "json_texts (JNum n) = [show_number n]"
| "json_texts (JStr s) = [s]"
| "json_texts (JArr xs) = concat (map json_texts xs)"
| "json_texts (JObj kvs) = concat (map (\<lambda>kv. fst kv # json_texts (snd kv)) kvs)"

definition appears_in :: "string \<Rightarrow> json \<Rightarrow> bool" where
  "appears_in t v = list_ex (sublist t) (json_texts v)"

section \<open>Example inputs\<close>

text \<open>
  The login exchange of the repository's test: the credentials, the user record and a
  response that carries the token \<^verbatim>\<open>abc\<close>; an upstream that accepts every request,
  one whose user record has the token's text as its \<^verbatim>\<open>id\<close>, one whose bodies have no
  \<^verbatim>\<open>data\<close> field, one that rejects with 401, one that rejects with 401 and a message
  that cannot be converted to a string, and one that cannot be reached.
\<close>

definition example_user :: json where
  "example_user =
     JObj [(''id'', JStr ''1''), (''username'', JStr ''mp5@eigital.com''),
           (''email'', JStr ''mp5@eigital.com''), (''role'', JStr ''admin'')]"

definition example_login_body :: json where
  "example_login_body =
     JObj [(''success'', JBool True),
           (''data'', JObj [(''token'', JStr ''abc''), (''user'', example_user)])]"

definition example_credentials :: json where
  "example_credentials =
     JObj [(''username'', JStr ''mp5@eigital.com''), (''password'', JStr ''Test@055'')]"

definition accepting_upstream :: upstream where
  "accepting_upstream r =
     (if req_url r = ''/user/login'' then HttpResponse 200 example_login_body
      else HttpResponse 200 (JObj [(''success'', JBool True)]))"

definition leaking_upstream :: upstream where
  "leaking_upstream r =
     HttpResponse 200 (JObj [(''success'', JBool True),
                             (''data'', JObj [(''token'', JStr ''abc''),
                                              (''user'', JObj [(''id'', JStr ''abc'')])])])"

definition unprintable_upstream :: upstream where
  "unprintable_upstream r =
     HttpResponse 401 (JObj [(''message'', JObj [(''toString'', JNum 1)])])"


definition rejecting_upstream :: upstream where
  "rejecting_upstream r =
     HttpResponse 401 (JObj [(''success'', JBool False), (''message'', JStr ''Invalid credentials'')])"

definition offline_upstream :: upstream where
  "offline_upstream r = NoResponse ''timeout of 30000ms exceeded''"

lemmas example_defs =
  example_user_def example_login_body_def example_credentials_def accepting_upstream_def
  rejecting_upstream_def offline_upstream_def new_adapter_def axios_config_def
  request_interceptor_def outgoing_def validateStatus_def

section \<open>What one request does\<close>

lemma opt_prop_lookup: "opt_prop v k = lookup v k"
  by (cases v) (simp_all add: opt_prop_def)

lemma truthy_lookup_not_nullish: "truthy (lookup v k) \<Longrightarrow> \<not> nullish v"
  by (cases v) simp_all

lemma truthy_lookup_lookup_not_nullish: "truthy (lookup (lookup v j) k) \<Longrightarrow> \<not> nullish v"
  by (cases v) simp_all

lemma js_or_default_defined: "js_or v (JStr m) \<noteq> JUndefined"
  by (cases v) (simp_all add: js_or_def)

lemma new_EOSApiError_string: "new_EOSApiError (JStr m) s r = EOSApiError m s r"
  by (simp add: new_EOSApiError_def)

lemma new_EOSApiError_default:
  "new_EOSApiError (js_or v (JStr m)) s r =
     (case to_str (js_or v (JStr m)) of None \<Rightarrow> cannot_convert | Some t \<Rightarrow> EOSApiError t s r)"
  by (simp add: new_EOSApiError_def js_or_default_defined)

lemma rethrow_simps:
  "rethrow msg (EOSApiError m s r) = EOSApiError m s r"
  "rethrow msg (TypeError m) = EOSApiError msg 500 JUndefined"
  "rethrow msg cannot_convert = EOSApiError msg 500 JUndefined"
  by (simp_all add: rethrow_def new_EOSApiError_def cannot_convert_def)

lemma rethrow_is_EOSApiError: "instanceof_EOSApiError (rethrow msg e)"
  by (cases e) (simp_all add: rethrow_simps)

lemma rethrow_new_EOSApiError:
  "rethrow msg (new_EOSApiError (js_or v (JStr m)) s r) =
     (case to_str (js_or v (JStr m)) of
        None \<Rightarrow> EOSApiError msg 500 JUndefined
      | Some t \<Rightarrow> EOSApiError t s r)"
  by (simp add: new_EOSApiError_default rethrow_simps split: option.splits)

lemma api_request_cases:
  "api_request up a m u b =
     (case request_interceptor a (axios_config m u b) of
        None \<Rightarrow> (Inl (EOSApiError cannot_convert_message 0 JUndefined), a)
      | Some r \<Rightarrow>
          (case up r of
             HttpResponse s d \<Rightarrow>
               if validateStatus s then Inr (s, d)
               else Inl (new_EOSApiError (js_or (opt_prop d ''message'') (JStr ''API request failed'')) s d)
           | NoResponse msg \<Rightarrow>
               Inl (EOSApiError (if msg = [] then ''Network error'' else msg) 0 JUndefined),
           a\<lparr>sent := sent a @ [r]\<rparr>))"
  by (simp add: api_request_def Let_def axios_dispatch_def new_EOSApiError_string js_or_def
        cannot_convert_message_def split: wire.splits option.splits)

lemma login_cases:
  "login up a credentials =
     (case request_interceptor a (axios_config POST ''/user/login'' credentials) of
        None \<Rightarrow> (Inl (EOSApiError cannot_convert_message 0 JUndefined), a)
      | Some r \<Rightarrow>
          (case up r of
             HttpResponse s d \<Rightarrow>
               if validateStatus s then
                 (if nullish d then Inl (EOSApiError ''Login failed'' 500 JUndefined) else Inr d,
                  a\<lparr>sent := sent a @ [r],
                    authToken := (if \<not> nullish d \<and> truthy (lookup d ''success'')
                                     \<and> truthy (opt_prop (lookup d ''data'') ''token'')
                                  then lookup (lookup d ''data'') ''token'' else authToken a)\<rparr>)
               else (Inl (rethrow ''Login failed''
                            (new_EOSApiError (js_or (opt_prop d ''message'') (JStr ''API request failed'')) s d)),
                     a\<lparr>sent := sent a @ [r]\<rparr>)
           | NoResponse msg \<Rightarrow>
               (Inl (EOSApiError (if msg = [] then ''Network error'' else msg) 0 JUndefined),
                a\<lparr>sent := sent a @ [r]\<rparr>)))"
  by (simp add: login_def api_request_cases rethrow_simps get_prop_def type_error_reading_def
      js_and_def setAuthToken_def split: wire.splits option.splits)

lemmas method_defs =
  getCurrentUser_def getUsers_def inviteUser_def updateUserStatus_def deleteUser_def
  healthCheck_def

lemma run_call_sent:
  "sent (snd (run_call up a c)) = sent a @ (case call_request a c of None \<Rightarrow> [] | Some r \<Rightarrow> [r])"
  by (cases c)
     (simp_all add: login_cases method_defs api_request_cases call_request_def
        split: wire.splits sum.splits option.splits)

lemma run_call_rejected:
  assumes "c \<noteq> HealthCheck"
    and "call_request a c = Some r"
    and "up r = HttpResponse s d"
    and "\<not> validateStatus s"
    and "to_str (js_or (opt_prop d ''message'') (JStr ''API request failed'')) = Some m"
  shows "fst (run_call up a c) = Inl (EOSApiError m s d)"
  using assms
  by (cases c)
     (auto simp add: login_cases method_defs api_request_cases call_request_def
        rethrow_new_EOSApiError Option.bind_eq_Some_conv)

lemma run_call_no_response:
  assumes "c \<noteq> HealthCheck"
    and "call_request a c = Some r"
    and "up r = NoResponse msg"
  shows "fst (run_call up a c) =
           Inl (EOSApiError (if msg = [] then ''Network error'' else msg) 0 JUndefined)"
  using assms
  by (cases c)
     (auto simp add: login_cases method_defs api_request_cases call_request_def
        rethrow_simps Option.bind_eq_Some_conv)

lemma run_call_raises_EOSApiError:
  assumes "fst (run_call up a c) = Inl e"
  shows "instanceof_EOSApiError e"
  using assms
  by (cases c)
     (auto simp add: login_def method_defs rethrow_is_EOSApiError
        split: prod.splits sum.splits if_splits option.splits)

lemma run_call_authToken:
  assumes "\<forall>credentials. c \<noteq> Login credentials"
  shows "authToken (snd (run_call up a c)) = authToken a"
  using assms
  by (cases c)
     (simp_all add: method_defs api_request_cases
        split: wire.splits sum.splits option.splits)

lemma login_authToken:
  "authToken (snd (login up a credentials)) =
     (case request_interceptor a (axios_config POST ''/user/login'' credentials) of
        None \<Rightarrow> authToken a
      | Some r \<Rightarrow>
          (case up r of
             HttpResponse s d \<Rightarrow>
               if validateStatus s \<and> truthy (lookup d ''success'')
                  \<and> truthy (lookup (lookup d ''data'') ''token'')
               then lookup (lookup d ''data'') ''token'' else authToken a
           | NoResponse msg \<Rightarrow> authToken a))"
proof (cases "request_interceptor a (axios_config POST ''/user/login'' credentials)")
  case None
  then show ?thesis by (simp add: login_cases)
next
  case (Some r)
  show ?thesis
  proof (cases "up r")
    case (HttpResponse s d)
    have "\<not> nullish d" if "truthy (lookup d ''success'')"
      using that by (rule truthy_lookup_not_nullish)
    with Some HttpResponse show ?thesis
      by (auto simp add: login_cases opt_prop_lookup)
  next
    case (NoResponse msg)
    with Some show ?thesis by (simp add: login_cases)
  qed
qed

lemma login_raises_keeps_token:
  assumes "fst (login up a credentials) = Inl e"
  shows "authToken (snd (login up a credentials)) = authToken a"
proof (cases "request_interceptor a (axios_config POST ''/user/login'' credentials)")
  case None
  then show ?thesis by (simp add: login_cases)
next
  case (Some r)
  show ?thesis
  proof (cases "up r")
    case (HttpResponse s d)
    show ?thesis
    proof (cases "validateStatus s \<and> \<not> nullish d")
      case True
      with Some HttpResponse assms show ?thesis by (simp add: login_cases)
    next
      case False
      with Some HttpResponse show ?thesis by (auto simp add: login_cases)
    qed
  next
    case (NoResponse msg)
    with Some show ?thesis by (simp add: login_cases)
  qed
qed

section \<open>What the handlers and the routes do with it\<close>

lemma outgoing_without_token: "\<not> truthy (authToken a) \<Longrightarrow> outgoing a config = [config]"
  by (simp add: outgoing_def request_interceptor_def)

lemma outgoing_string_token:
  "authToken a = JStr t \<Longrightarrow> t \<noteq> [] \<Longrightarrow>
     outgoing a config = [config\<lparr>req_authorization := Some (''Bearer '' @ t)\<rparr>]"
  by (simp add: outgoing_def request_interceptor_def)

lemma login_handler_envelope:
  assumes "request_interceptor a (axios_config POST ''/user/login'' args) = Some r"
    and "up r = HttpResponse s d"
    and "validateStatus s"
    and "\<not> nullish d"
  shows "fst (login_handler up a args) =
           Inr (JObj [(''success'', JBool True),
                      (''message'', JStr ''Login successful''),
                      (''data'', JObj [(''user'', lookup (lookup d ''data'') ''user''),
                                       (''token'', if truthy (lookup (lookup d ''data'') ''token'')
                                                   then JStr ''***'' else JUndefined)])])"
  using assms by (simp add: login_handler_def login_cases get_prop_def opt_prop_lookup)

lemma handler_sent:
  "sent (snd (login_handler up a args))
     = sent a @ outgoing a (axios_config POST ''/user/login'' args)"
  "sent (snd (invite_user_handler up a args))
     = sent a @ outgoing a (axios_config POST ''/users/invite'' args)"
  "\<not> nullish args \<Longrightarrow> to_str (lookup args ''userId'') = Some u \<Longrightarrow>
     sent (snd (update_user_status_handler up a args))
       = sent a @ outgoing a (axios_config PATCH (''/users/'' @ u @ ''/status'')
                                (JObj [(''status'', lookup args ''status'')]))"
  "\<not> nullish args \<Longrightarrow> to_str (lookup args ''userId'') = Some u \<Longrightarrow>
     sent (snd (delete_user_handler up a args))
       = sent a @ outgoing a (axios_config DELETE (''/users/'' @ u) JUndefined)"
  "\<not> nullish args \<Longrightarrow> to_str (lookup args ''userId'') = None \<Longrightarrow>
     sent (snd (update_user_status_handler up a args)) = sent a"
  "\<not> nullish args \<Longrightarrow> to_str (lookup args ''userId'') = None \<Longrightarrow>
     sent (snd (delete_user_handler up a args)) = sent a"
  by (simp_all add: login_handler_def invite_user_handler_def update_user_status_handler_def
        delete_user_handler_def login_cases inviteUser_def updateUserStatus_def deleteUser_def
        api_request_cases get_prop_def outgoing_def split: wire.splits option.splits)

lemma inviteUser_sent:
  "sent (snd (inviteUser up a inviteData))
     = sent a @ outgoing a (axios_config POST ''/users/invite'' inviteData)"
  by (simp add: inviteUser_def api_request_cases outgoing_def split: wire.splits option.splits)

lemma rest_validation:
  "\<not> nullish body \<Longrightarrow> \<not> truthy (lookup body ''username'') \<or> \<not> truthy (lookup body ''password'') \<Longrightarrow>
     post_auth_login up a body = (bad_request ''Username and password are required'', a)"
  "\<not> nullish body \<Longrightarrow> \<not> truthy (lookup body ''email'') \<or> \<not> truthy (lookup body ''role'') \<Longrightarrow>
     post_users_invite up a body = (bad_request ''Email and role are required'', a)"
  "\<not> nullish body \<Longrightarrow> lookup body ''status'' \<noteq> JStr ''active'' \<Longrightarrow> lookup body ''status'' \<noteq> JStr ''inactive'' \<Longrightarrow>
     patch_users_status up a userId body = (bad_request ''Valid status (active/inactive) is required'', a)"
  by (auto simp add: post_auth_login_def post_users_invite_def patch_users_status_def get_prop_def
        Let_def)

lemma post_users_invite_forwards:
  assumes "truthy (lookup body ''email'')" and "truthy (lookup body ''role'')"
  shows "sent (snd (post_users_invite up a body))
           = sent a @ outgoing a (axios_config POST ''/users/invite'' body)"
proof -
  from assms(1) have "\<not> nullish body" by (rule truthy_lookup_not_nullish)
  with assms show ?thesis
    by (simp add: post_users_invite_def inviteUser_def api_request_cases get_prop_def outgoing_def
        split: wire.splits option.splits)
qed

lemma invite_role_enum:
  "lookup (lookup (lookup (inputSchema getInviteUserTool) ''properties'') ''role'') ''enum''
     = JArr [JStr ''admin'', JStr ''manager'', JStr ''user'']"
  by (simp add: getInviteUserTool_def object_schema_def enum_property_def string_property_def)

lemma failure_envelope_EOSApiError:
  "failure_envelope dflt (EOSApiError m s r) =
     JObj [(''success'', JBool False),
           (''message'', JStr (if m = [] then dflt else m)),
           (''error'', JNum (if s = 0 then 500 else s))]"
  by (simp add: failure_envelope_def js_or_def)

lemma handlers_wrap_upstream_error:
  "fst (login up a args) = Inl e \<Longrightarrow>
     fst (login_handler up a args) = Inr (failure_envelope ''Login failed'' e)"
  "fst (getCurrentUser up a) = Inl e \<Longrightarrow>
     fst (current_user_handler up a args) = Inr (failure_envelope ''Failed to get user profile'' e)"
  "fst (getUsers up a) = Inl e \<Longrightarrow>
     fst (users_handler up a args) = Inr (failure_envelope ''Failed to get users'' e)"
  "fst (inviteUser up a args) = Inl e \<Longrightarrow>
     fst (invite_user_handler up a args) = Inr (failure_envelope ''Failed to invite user'' e)"
  "\<not> nullish args \<Longrightarrow>
     fst (updateUserStatus up a (lookup args ''userId'') (lookup args ''status'')) = Inl e \<Longrightarrow>
     fst (update_user_status_handler up a args)
       = Inr (failure_envelope ''Failed to update user status'' e)"
  "\<not> nullish args \<Longrightarrow> fst (deleteUser up a (lookup args ''userId'')) = Inl e \<Longrightarrow>
     fst (delete_user_handler up a args) = Inr (failure_envelope ''Failed to delete user'' e)"
  by (auto simp add: login_handler_def current_user_handler_def users_handler_def
        invite_user_handler_def update_user_status_handler_def delete_user_handler_def
        get_prop_def split: prod.splits)

lemma handlers_never_raise:
  assumes "t \<in> set (getTools now)"
  shows "\<exists>envelope. fst (handler t up a args) = Inr envelope"
  using assms
  by (auto simp add: getTools_def getLoginTool_def getCurrentUserTool_def getUsersTool_def
        getInviteUserTool_def getUpdateUserStatusTool_def getDeleteUserTool_def
        getHealthCheckTool_def login_handler_def current_user_handler_def users_handler_def
        invite_user_handler_def update_user_status_handler_def delete_user_handler_def
        health_check_handler_def
      split: prod.splits sum.splits option.splits)

lemma appears_in_login_envelope:
  "appears_in t (JObj [(''success'', JBool True),
                       (''message'', JStr ''Login successful''),
                       (''data'', JObj [(''user'', user), (''token'', JStr ''***'')])])
     = (appears_in t user
        \<or> list_ex (sublist t)
             [''success'', ''true'', ''message'', ''Login successful'', ''data'', ''user'',
              ''token'', ''***''])"
  by (auto simp add: appears_in_def)

section \<open>The claims\<close>

subsection \<open>C1: what \<^verbatim>\<open>login\<close> returns\<close>

text \<open>
  Claim C1, as the code has it. A call of the adapter's \<^verbatim>\<open>login\<close> whose upstream
  response is a 2xx with a body returns that body to its caller unchanged, the raw token
  included, and \<^verbatim>\<open>POST /auth/login\<close> with a username and a password answers 200 with the
  same body. The adapter and the REST route put no placeholder in place of the token; only
  the \<^verbatim>\<open>eos_login\<close> handler does (C2).
\<close>

theorem login_returns_upstream_body:
  assumes "request_interceptor a (axios_config POST ''/user/login'' credentials) = Some r"
    and "up r = HttpResponse s d"
    and "validateStatus s"
    and "\<not> nullish d"
  shows "fst (login up a credentials) = Inr d
       \<and> (truthy (lookup credentials ''username'') \<and> truthy (lookup credentials ''password'')
            \<longrightarrow> fst (post_auth_login up a credentials) = (JNum 200, d))"
proof -
  have "\<not> nullish credentials" if "truthy (lookup credentials ''username'')"
    using that by (rule truthy_lookup_not_nullish)
  with assms show ?thesis
    by (auto simp add: login_cases post_auth_login_def get_prop_def)
qed

text \<open>The theorem at the test's login exchange.\<close>

theorem login_returns_upstream_body_witness:
  "request_interceptor new_adapter (axios_config POST ''/user/login'' example_credentials)
     = Some (axios_config POST ''/user/login'' example_credentials)
   \<and> accepting_upstream (axios_config POST ''/user/login'' example_credentials)
       = HttpResponse 200 example_login_body
   \<and> validateStatus 200
   \<and> \<not> nullish example_login_body
   \<and> truthy (lookup example_credentials ''username'')
   \<and> truthy (lookup example_credentials ''password'')
   \<and> fst (login accepting_upstream new_adapter example_credentials) = Inr example_login_body
   \<and> fst (post_auth_login accepting_upstream new_adapter example_credentials)
       = (JNum 200, example_login_body)"
proof -
  have h0: "request_interceptor new_adapter (axios_config POST ''/user/login'' example_credentials)
     = Some (axios_config POST ''/user/login'' example_credentials)"
    by (simp add: request_interceptor_def new_adapter_def)
  have h1: "accepting_upstream (axios_config POST ''/user/login'' example_credentials)
              = HttpResponse 200 example_login_body"
    by (simp add: accepting_upstream_def axios_config_def)
  have h2: "validateStatus 200" by (simp add: validateStatus_def)
  have h3: "\<not> nullish example_login_body" by (simp add: example_login_body_def)
  have h4: "truthy (lookup example_credentials ''username'')"
    and h5: "truthy (lookup example_credentials ''password'')"
    by (simp_all add: example_credentials_def)
  from login_returns_upstream_body
         [of new_adapter example_credentials "axios_config POST ''/user/login'' example_credentials"
             accepting_upstream 200 example_login_body]
       h0 h1 h2 h3 h4 h5
  show ?thesis by simp
qed

text \<open>
  Against the claim as first stated (the caller receives a placeholder, never the raw
  token): the payload \<^verbatim>\<open>login\<close> returns, and the body the REST route sends, carry the
  token \<^verbatim>\<open>abc\<close> itself.
\<close>

theorem login_exposes_raw_token:
  "fst (login accepting_upstream new_adapter example_credentials) = Inr example_login_body
   \<and> fst (post_auth_login accepting_upstream new_adapter example_credentials)
       = (JNum 200, example_login_body)
   \<and> lookup (lookup example_login_body ''data'') ''token'' = JStr ''abc''"
  by (simp add: login_cases post_auth_login_def get_prop_def example_defs opt_prop_lookup)

subsection \<open>C2: the \<^verbatim>\<open>eos_login\<close> handler and the token\<close>

text \<open>
  Claim C2, as the code has it. When the upstream answers the login with a 2xx whose body
  carries a non-empty (truthy) token, the \<^verbatim>\<open>eos_login\<close> handler returns the envelope
  whose \<^verbatim>\<open>data\<close> holds the user record of the response, passed through, and the token
  field \<^verbatim>\<open>"***"\<close>. The text of the raw token appears in that result only where the user
  record, passed through, holds it, or where it is part of the envelope's own fixed text
  (its property names, \<^verbatim>\<open>true\<close>, \<^verbatim>\<open>Login successful\<close>, \<^verbatim>\<open>***\<close>).
\<close>

theorem eos_login_redacts_token_field:
  assumes "request_interceptor a (axios_config POST ''/user/login'' args) = Some r"
    and "up r = HttpResponse s d"
    and "validateStatus s"
    and "truthy (lookup (lookup d ''data'') ''token'')"
  shows "\<exists>envelope.
           fst (login_handler up a args) = Inr envelope
         \<and> envelope = JObj [(''success'', JBool True),
                            (''message'', JStr ''Login successful''),
                            (''data'', JObj [(''user'', lookup (lookup d ''data'') ''user''),
                                             (''token'', JStr ''***'')])]
         \<and> (\<forall>t. lookup (lookup d ''data'') ''token'' = JStr t \<longrightarrow>
               appears_in t envelope
                 = (appears_in t (lookup (lookup d ''data'') ''user'')
                    \<or> list_ex (sublist t)
                         [''success'', ''true'', ''message'', ''Login successful'', ''data'',
                          ''user'', ''token'', ''***'']))"
proof -
  from assms(4) have "\<not> nullish d"
    by (rule truthy_lookup_lookup_not_nullish)
  with assms have "fst (login_handler up a args) =
           Inr (JObj [(''success'', JBool True),
                      (''message'', JStr ''Login successful''),
                      (''data'', JObj [(''user'', lookup (lookup d ''data'') ''user''),
                                       (''token'', JStr ''***'')])])"
    by (simp add: login_handler_envelope [of a args r up s d])
  then show ?thesis
    by (simp add: appears_in_login_envelope)
qed

text \<open>
  The theorem at the test's login exchange: the token field is \<^verbatim>\<open>"***"\<close> and the text
  \<^verbatim>\<open>abc\<close> appears nowhere in the result.
\<close>

theorem eos_login_redacts_token_field_witness:
  "request_interceptor new_adapter (axios_config POST ''/user/login'' example_credentials)
     = Some (axios_config POST ''/user/login'' example_credentials)
   \<and> accepting_upstream (axios_config POST ''/user/login'' example_credentials)
       = HttpResponse 200 example_login_body
   \<and> validateStatus 200
   \<and> lookup (lookup example_login_body ''data'') ''token'' = JStr ''abc''
   \<and> fst (login_handler accepting_upstream new_adapter example_credentials) =
       Inr (JObj [(''success'', JBool True),
                  (''message'', JStr ''Login successful''),
                  (''data'', JObj [(''user'', example_user), (''token'', JStr ''***'')])])
   \<and> \<not> appears_in ''abc''
          (JObj [(''success'', JBool True),
                 (''message'', JStr ''Login successful''),
                 (''data'', JObj [(''user'', example_user), (''token'', JStr ''***'')])])"
proof -
  have h0: "request_interceptor new_adapter (axios_config POST ''/user/login'' example_credentials)
     = Some (axios_config POST ''/user/login'' example_credentials)"
    by (simp add: request_interceptor_def new_adapter_def)
  have h1: "accepting_upstream (axios_config POST ''/user/login'' example_credentials)
              = HttpResponse 200 example_login_body"
    by (simp add: accepting_upstream_def axios_config_def)
  have h2: "validateStatus 200" by (simp add: validateStatus_def)
  have h3: "lookup (lookup example_login_body ''data'') ''token'' = JStr ''abc''"
    by (simp add: example_login_body_def)
  have h4: "lookup (lookup example_login_body ''data'') ''user'' = example_user"
    by (simp add: example_login_body_def)
  have h5: "\<not> appears_in ''abc'' example_user"
    by (simp add: appears_in_def example_user_def sublist_Cons_right)
  have h6: "\<not> list_ex (sublist ''abc'')
                 [''success'', ''true'', ''message'', ''Login successful'', ''data'',
                  ''user'', ''token'', ''***'']"
    by (simp add: sublist_Cons_right)
  from h3 have h7: "truthy (lookup (lookup example_login_body ''data'') ''token'')" by simp
  from eos_login_redacts_token_field
         [of new_adapter example_credentials "axios_config POST ''/user/login'' example_credentials"
             accepting_upstream 200 example_login_body, OF h0 h1 h2 h7]
  obtain envelope where
    e1: "fst (login_handler accepting_upstream new_adapter example_credentials) = Inr envelope"
    and e2: "envelope = JObj [(''success'', JBool True),
                            (''message'', JStr ''Login successful''),
                            (''data'', JObj [(''user'', lookup (lookup example_login_body ''data'') ''user''),
                                             (''token'', JStr ''***'')])]"
    and e3: "\<forall>t. lookup (lookup example_login_body ''data'') ''token'' = JStr t \<longrightarrow>
               appears_in t envelope
                 = (appears_in t (lookup (lookup example_login_body ''data'') ''user'')
                    \<or> list_ex (sublist t)
                         [''success'', ''true'', ''message'', ''Login successful'', ''data'',
                          ''user'', ''token'', ''***''])"
    by blast
  from e3 h3 have "appears_in ''abc'' envelope
      = (appears_in ''abc'' (lookup (lookup example_login_body ''data'') ''user'')
         \<or> list_ex (sublist ''abc'')
              [''success'', ''true'', ''message'', ''Login successful'', ''data'',
               ''user'', ''token'', ''***''])"
    by blast
  with h4 h5 h6 have e4: "\<not> appears_in ''abc'' envelope" by simp
  from e1 e2 e4 h0 h1 h2 h3 h4 show ?thesis by simp
qed

text \<open>
  Against the claim as first stated (the raw token string appears nowhere in the result):
  the upstream's user record has the token's text \<^verbatim>\<open>abc\<close> as its \<^verbatim>\<open>id\<close>; the handler
  passes the record through, and the text appears in the result.
\<close>

theorem eos_login_result_holds_token_text:
  "leaking_upstream (axios_config POST ''/user/login'' example_credentials)
     = HttpResponse 200
         (JObj [(''success'', JBool True),
                (''data'', JObj [(''token'', JStr ''abc''),
                                 (''user'', JObj [(''id'', JStr ''abc'')])])])
   \<and> fst (login_handler leaking_upstream new_adapter example_credentials) =
       Inr (JObj [(''success'', JBool True),
                  (''message'', JStr ''Login successful''),
                  (''data'', JObj [(''user'', JObj [(''id'', JStr ''abc'')]),
                                   (''token'', JStr ''***'')])])
   \<and> appears_in ''abc''
        (JObj [(''success'', JBool True),
               (''message'', JStr ''Login successful''),
               (''data'', JObj [(''user'', JObj [(''id'', JStr ''abc'')]),
                                (''token'', JStr ''***'')])])"
  by (simp add: login_handler_def login_cases get_prop_def opt_prop_lookup leaking_upstream_def
        request_interceptor_def new_adapter_def validateStatus_def appears_in_def)

subsection \<open>C3: required fields at the handlers\<close>

text \<open>
  Claim C3, as the code has it. The registry handlers check no required field. The
  \<^verbatim>\<open>eos_login\<close> and \<^verbatim>\<open>eos_invite_user\<close> handlers hand any arguments to the adapter
  as the request body; the \<^verbatim>\<open>eos_update_user_status\<close> and \<^verbatim>\<open>eos_delete_user\<close>
  handlers, given arguments that are not \<^verbatim>\<open>undefined\<close> or \<^verbatim>\<open>null\<close>, issue their
  request for the path built from \<^verbatim>\<open>userId\<close> converted to a string, and make no
  request where \<^verbatim>\<open>userId\<close> cannot be converted. The adapter passes that one request
  to the upstream: as it is when no token is stored, with the bearer header when the
  stored token is a non-empty string. A missing or empty required
  field is rejected locally, with status 400 and no upstream request, only by the REST
  routes \<^verbatim>\<open>/auth/login\<close>, \<^verbatim>\<open>/users/invite\<close> and \<^verbatim>\<open>/users/:userId/status\<close>.
\<close>

theorem handlers_forward_without_validation:
  "sent (snd (login_handler up a args))
     = sent a @ outgoing a (axios_config POST ''/user/login'' args)
   \<and> sent (snd (invite_user_handler up a args))
     = sent a @ outgoing a (axios_config POST ''/users/invite'' args)
   \<and> (\<not> nullish args \<and> to_str (lookup args ''userId'') = Some u \<longrightarrow>
        sent (snd (update_user_status_handler up a args))
          = sent a @ outgoing a (axios_config PATCH (''/users/'' @ u @ ''/status'')
                                   (JObj [(''status'', lookup args ''status'')]))
        \<and> sent (snd (delete_user_handler up a args))
          = sent a @ outgoing a (axios_config DELETE (''/users/'' @ u) JUndefined))
   \<and> (\<not> nullish args \<and> to_str (lookup args ''userId'') = None \<longrightarrow>
        sent (snd (update_user_status_handler up a args)) = sent a
        \<and> sent (snd (delete_user_handler up a args)) = sent a)
   \<and> (\<not> truthy (authToken a) \<longrightarrow> outgoing a config = [config])
   \<and> (authToken a = JStr t \<and> t \<noteq> [] \<longrightarrow>
        outgoing a config = [config\<lparr>req_authorization := Some (''Bearer '' @ t)\<rparr>])
   \<and> (\<not> nullish args \<and> (\<not> truthy (lookup args ''username'') \<or> \<not> truthy (lookup args ''password''))
        \<longrightarrow> post_auth_login up a args = (bad_request ''Username and password are required'', a))
   \<and> (\<not> nullish args \<and> (\<not> truthy (lookup args ''email'') \<or> \<not> truthy (lookup args ''role''))
        \<longrightarrow> post_users_invite up a args = (bad_request ''Email and role are required'', a))
   \<and> (\<not> nullish args \<and> lookup args ''status'' \<noteq> JStr ''active'' \<and> lookup args ''status'' \<noteq> JStr ''inactive''
        \<longrightarrow> patch_users_status up a userId args
              = (bad_request ''Valid status (active/inactive) is required'', a))"
  by (intro conjI impI; (elim conjE)?)
     (simp_all add: handler_sent rest_validation outgoing_without_token outgoing_string_token)

text \<open>The theorem at the empty arguments object, where every required field is missing.\<close>

theorem handlers_forward_without_validation_witness:
  "\<not> nullish (JObj [])
   \<and> to_str (lookup (JObj []) ''userId'') = Some ''undefined''
   \<and> \<not> truthy (authToken new_adapter)
   \<and> \<not> truthy (lookup (JObj []) ''username'')
   \<and> \<not> truthy (lookup (JObj []) ''email'')
   \<and> lookup (JObj []) ''status'' \<noteq> JStr ''active'' \<and> lookup (JObj []) ''status'' \<noteq> JStr ''inactive''
   \<and> sent (snd (login_handler accepting_upstream new_adapter (JObj [])))
       = [axios_config POST ''/user/login'' (JObj [])]
   \<and> sent (snd (invite_user_handler accepting_upstream new_adapter (JObj [])))
       = [axios_config POST ''/users/invite'' (JObj [])]
   \<and> sent (snd (update_user_status_handler accepting_upstream new_adapter (JObj [])))
       = [axios_config PATCH ''/users/undefined/status'' (JObj [(''status'', JUndefined)])]
   \<and> sent (snd (delete_user_handler accepting_upstream new_adapter (JObj [])))
       = [axios_config DELETE ''/users/undefined'' JUndefined]
   \<and> post_auth_login accepting_upstream new_adapter (JObj [])
       = (bad_request ''Username and password are required'', new_adapter)
   \<and> post_users_invite accepting_upstream new_adapter (JObj [])
       = (bad_request ''Email and role are required'', new_adapter)
   \<and> patch_users_status accepting_upstream new_adapter ''7'' (JObj [])
       = (bad_request ''Valid status (active/inactive) is required'', new_adapter)"
proof -
  have t: "\<not> truthy (authToken new_adapter)" by (simp add: new_adapter_def)
  have s: "sent new_adapter = []" by (simp add: new_adapter_def)
  note inst = handlers_forward_without_validation
    [of accepting_upstream new_adapter "JObj []" "''undefined''" _ "[]" "''7''"]
  from t inst have o: "outgoing new_adapter config = [config]" for config
    by (simp add: outgoing_without_token)
  from inst [of "axios_config GET [] JUndefined"] o s t show ?thesis by simp
qed

text \<open>
  Against the claim as first stated (a local validation failure and no upstream call): the
  \<^verbatim>\<open>eos_invite_user\<close> handler, given an empty \<^verbatim>\<open>email\<close> and no \<^verbatim>\<open>role\<close>, sends
  the request upstream and reports success.
\<close>

theorem invite_handler_forwards_empty_email:
  "invite_user_handler accepting_upstream new_adapter (JObj [(''email'', JStr [])]) =
     (Inr (JObj [(''success'', JBool True),
                 (''message'', JStr ''User invited successfully''),
                 (''data'', JObj [(''success'', JBool True)])]),
      \<lparr>authToken = JNull,
       sent = [\<lparr>req_method = POST, req_url = ''/users/invite'',
                req_body = JObj [(''email'', JStr [])], req_authorization = None\<rparr>]\<rparr>)"
  by (simp add: invite_user_handler_def inviteUser_def api_request_cases example_defs)

subsection \<open>C4: the handlers' failure envelope\<close>

text \<open>
  Claim C4 says that a handler turns every upstream error of the adapter into the envelope
  \<^verbatim>\<open>{success: false, message, error: statusCode}\<close>, the network-failure status 0
  included. The handlers do not re-raise (\<open>handlers_never_raise\<close>) and report the
  adapter's status code when it is not 0 (\<open>handlers_wrap_upstream_error\<close>,
  \<open>failure_envelope_EOSApiError\<close>); at 0 the expression
  \<^verbatim>\<open>error.statusCode || 500\<close> gives 500. Here the upstream cannot be reached: the adapter
  raises its error with status 0, and the \<^verbatim>\<open>eos_get_users\<close> handler reports 500.
\<close>

theorem users_handler_network_failure_reports_500:
  "fst (getUsers offline_upstream new_adapter)
     = Inl (EOSApiError ''timeout of 30000ms exceeded'' 0 JUndefined)
   \<and> fst (users_handler offline_upstream new_adapter (JObj []))
     = Inr (JObj [(''success'', JBool False),
                  (''message'', JStr ''timeout of 30000ms exceeded''),
                  (''error'', JNum 500)])"
  by (simp add: users_handler_def getUsers_def api_request_cases rethrow_simps
        failure_envelope_EOSApiError offline_upstream_def request_interceptor_def new_adapter_def)

subsection \<open>C5: one error shape out of the adapter\<close>

text \<open>
  Claim C5, as the code has it. For every adapter method but \<^verbatim>\<open>healthCheck\<close>: when the
  upstream answers with a status outside 200 to 299 and the error's message (the body's
  \<^verbatim>\<open>message\<close> when truthy, a default otherwise) can be converted to a string, the method
  raises an \<^verbatim>\<open>EOSApiError\<close> with that message, the body, and the upstream status as
  \<^verbatim>\<open>statusCode\<close>; when no response arrives (connection error, timeout), it raises an
  \<^verbatim>\<open>EOSApiError\<close> with \<^verbatim>\<open>statusCode\<close> 0; and whatever the upstream does, nothing
  but an \<^verbatim>\<open>EOSApiError\<close> is ever raised.
\<close>

theorem adapter_raises_uniform_error:
  assumes "c \<noteq> HealthCheck"
  shows "(call_request a c = Some r \<and> up r = HttpResponse s d \<and> \<not> validateStatus s
            \<and> to_str (js_or (opt_prop d ''message'') (JStr ''API request failed'')) = Some m
          \<longrightarrow> fst (run_call up a c) = Inl (EOSApiError m s d))
       \<and> (call_request a c = Some r \<and> up r = NoResponse msg \<longrightarrow>
            fst (run_call up a c) =
              Inl (EOSApiError (if msg = [] then ''Network error'' else msg) 0 JUndefined))
       \<and> (\<forall>e. fst (run_call up a c) = Inl e \<longrightarrow> instanceof_EOSApiError e)"
  using assms run_call_rejected [of c a r up s d m] run_call_no_response [of c a r up msg]
    run_call_raises_EOSApiError [of up a c]
  by blast

text \<open>The theorem at \<^verbatim>\<open>getUsers\<close>, against a 401 and against a timeout.\<close>

theorem adapter_raises_uniform_error_witness:
  "GetUsers \<noteq> HealthCheck
   \<and> call_request new_adapter GetUsers = Some (axios_config GET ''/users'' JUndefined)
   \<and> rejecting_upstream (axios_config GET ''/users'' JUndefined)
       = HttpResponse 401 (JObj [(''success'', JBool False), (''message'', JStr ''Invalid credentials'')])
   \<and> \<not> validateStatus 401
   \<and> to_str (js_or (opt_prop (JObj [(''success'', JBool False), (''message'', JStr ''Invalid credentials'')])
                       ''message'')
                (JStr ''API request failed''))
       = Some ''Invalid credentials''
   \<and> fst (run_call rejecting_upstream new_adapter GetUsers)
       = Inl (EOSApiError ''Invalid credentials'' 401
               (JObj [(''success'', JBool False), (''message'', JStr ''Invalid credentials'')]))
   \<and> offline_upstream (axios_config GET ''/users'' JUndefined)
       = NoResponse ''timeout of 30000ms exceeded''
   \<and> fst (run_call offline_upstream new_adapter GetUsers)
       = Inl (EOSApiError ''timeout of 30000ms exceeded'' 0 JUndefined)"
proof -
  have h0: "GetUsers \<noteq> HealthCheck" by simp
  have hr: "call_request new_adapter GetUsers = Some (axios_config GET ''/users'' JUndefined)"
    by (simp add: call_request_def request_interceptor_def new_adapter_def)
  have h1: "rejecting_upstream (axios_config GET ''/users'' JUndefined)
       = HttpResponse 401 (JObj [(''success'', JBool False), (''message'', JStr ''Invalid credentials'')])"
    by (simp add: rejecting_upstream_def)
  have h2: "\<not> validateStatus 401" by (simp add: validateStatus_def)
  have hm: "to_str (js_or (opt_prop (JObj [(''success'', JBool False), (''message'', JStr ''Invalid credentials'')])
                       ''message'')
                (JStr ''API request failed''))
       = Some ''Invalid credentials''"
    by (simp add: opt_prop_lookup js_or_def)
  have h3: "offline_upstream (axios_config GET ''/users'' JUndefined)
       = NoResponse ''timeout of 30000ms exceeded''"
    by (simp add: offline_upstream_def)
  note rejected = adapter_raises_uniform_error
         [OF h0, of new_adapter "axios_config GET ''/users'' JUndefined" rejecting_upstream 401
            "JObj [(''success'', JBool False), (''message'', JStr ''Invalid credentials'')]"
            "''Invalid credentials''" "[]"]
  note offline = adapter_raises_uniform_error
         [OF h0, of new_adapter "axios_config GET ''/users'' JUndefined" offline_upstream 0 JNull
            "[]" "''timeout of 30000ms exceeded''"]
  from rejected hr h1 h2 hm have c1: "fst (run_call rejecting_upstream new_adapter GetUsers) =
      Inl (EOSApiError ''Invalid credentials'' 401
            (JObj [(''success'', JBool False), (''message'', JStr ''Invalid credentials'')]))"
    by blast
  from offline hr h3 have c2: "fst (run_call offline_upstream new_adapter GetUsers) =
      Inl (EOSApiError (if ''timeout of 30000ms exceeded'' = [] then ''Network error''
                        else ''timeout of 30000ms exceeded'') 0 JUndefined)"
    by blast
  from c1 c2 h0 hr h1 h2 hm h3 show ?thesis
    by simp
qed

text \<open>
  Against the claim as first stated (the status code is the upstream status whenever a
  response is available): the upstream answers 401 with a message that is an object
  owning \<^verbatim>\<open>toString\<close>; building the error throws inside the interceptor, and
  \<^verbatim>\<open>getUsers\<close> raises its own error with status 500.
\<close>

theorem getUsers_loses_upstream_status:
  "call_request new_adapter GetUsers = Some (axios_config GET ''/users'' JUndefined)
   \<and> unprintable_upstream (axios_config GET ''/users'' JUndefined)
       = HttpResponse 401 (JObj [(''message'', JObj [(''toString'', JNum 1)])])
   \<and> \<not> validateStatus 401
   \<and> fst (run_call unprintable_upstream new_adapter GetUsers)
       = Inl (EOSApiError ''Failed to get users'' 500 JUndefined)"
  by (simp add: call_request_def request_interceptor_def new_adapter_def unprintable_upstream_def
        validateStatus_def getUsers_def api_request_cases new_EOSApiError_def rethrow_simps
        opt_prop_lookup js_or_def)

subsection \<open>C6: who changes the stored token\<close>

text \<open>
  Claim C6, as the code has it. Among the methods that call the upstream, only
  \<^verbatim>\<open>login\<close> changes the stored token: every other one leaves it as it was; a
  \<^verbatim>\<open>login\<close> that raises leaves it as it was; a \<^verbatim>\<open>login\<close> changes it only when the
  upstream answered 2xx with a truthy \<^verbatim>\<open>success\<close> and a token, and then stores that
  token. Besides \<^verbatim>\<open>login\<close>, the public setters \<^verbatim>\<open>setAuthToken\<close> and
  \<^verbatim>\<open>clearAuthToken\<close> change it too.
\<close>

theorem token_changed_only_by_login_and_setters:
  "((\<forall>credentials. c \<noteq> Login credentials) \<longrightarrow> authToken (snd (run_call up a c)) = authToken a)
   \<and> (fst (login up a credentials) = Inl e \<longrightarrow> authToken (snd (login up a credentials)) = authToken a)
   \<and> (authToken (snd (login up a credentials)) \<noteq> authToken a \<longrightarrow>
        (\<exists>r s d. request_interceptor a (axios_config POST ''/user/login'' credentials) = Some r
               \<and> up r = HttpResponse s d
               \<and> validateStatus s \<and> truthy (lookup d ''success'')
               \<and> truthy (lookup (lookup d ''data'') ''token'')
               \<and> authToken (snd (login up a credentials)) = lookup (lookup d ''data'') ''token''))
   \<and> (request_interceptor a (axios_config POST ''/user/login'' credentials) = Some r
        \<and> up r = HttpResponse s d
        \<and> validateStatus s \<and> truthy (lookup d ''success'') \<and> truthy (lookup (lookup d ''data'') ''token'')
        \<longrightarrow> authToken (snd (login up a credentials)) = lookup (lookup d ''data'') ''token'')
   \<and> authToken (setAuthToken token a) = token
   \<and> authToken (clearAuthToken a) = JNull"
proof (intro conjI impI)
  assume "\<forall>credentials. c \<noteq> Login credentials"
  then show "authToken (snd (run_call up a c)) = authToken a"
    by (rule run_call_authToken)
next
  assume "fst (login up a credentials) = Inl e"
  then show "authToken (snd (login up a credentials)) = authToken a"
    by (rule login_raises_keeps_token)
next
  assume changed: "authToken (snd (login up a credentials)) \<noteq> authToken a"
  show "\<exists>r s d. request_interceptor a (axios_config POST ''/user/login'' credentials) = Some r
               \<and> up r = HttpResponse s d
               \<and> validateStatus s \<and> truthy (lookup d ''success'')
               \<and> truthy (lookup (lookup d ''data'') ''token'')
               \<and> authToken (snd (login up a credentials)) = lookup (lookup d ''data'') ''token''"
  proof (cases "request_interceptor a (axios_config POST ''/user/login'' credentials)")
    case None
    with changed show ?thesis by (simp add: login_authToken)
  next
    case (Some r)
    show ?thesis
    proof (cases "up r")
      case (HttpResponse s d)
      with changed Some show ?thesis
        by (simp add: login_authToken split: if_splits)
    next
      case (NoResponse msg)
      with changed Some show ?thesis by (simp add: login_authToken)
    qed
  qed
next
  assume "request_interceptor a (axios_config POST ''/user/login'' credentials) = Some r
        \<and> up r = HttpResponse s d
        \<and> validateStatus s \<and> truthy (lookup d ''success'') \<and> truthy (lookup (lookup d ''data'') ''token'')"
  then show "authToken (snd (login up a credentials)) = lookup (lookup d ''data'') ''token''"
    by (simp add: login_authToken)
next
  show "authToken (setAuthToken token a) = token" by (simp add: setAuthToken_def)
next
  show "authToken (clearAuthToken a) = JNull" by (simp add: clearAuthToken_def)
qed

text \<open>
  The theorem at \<^verbatim>\<open>getUsers\<close>, at a login the upstream rejects and at a login it
  accepts.
\<close>

theorem token_changed_only_by_login_and_setters_witness:
  "(\<forall>credentials. GetUsers \<noteq> Login credentials)
   \<and> authToken (snd (run_call accepting_upstream new_adapter GetUsers)) = JNull
   \<and> fst (login rejecting_upstream new_adapter example_credentials)
       = Inl (EOSApiError ''Invalid credentials'' 401
               (JObj [(''success'', JBool False), (''message'', JStr ''Invalid credentials'')]))
   \<and> authToken (snd (login rejecting_upstream new_adapter example_credentials)) = JNull
   \<and> request_interceptor new_adapter (axios_config POST ''/user/login'' example_credentials)
       = Some (axios_config POST ''/user/login'' example_credentials)
   \<and> accepting_upstream (axios_config POST ''/user/login'' example_credentials)
       = HttpResponse 200 example_login_body
   \<and> validateStatus 200
   \<and> truthy (lookup example_login_body ''success'')
   \<and> truthy (lookup (lookup example_login_body ''data'') ''token'')
   \<and> authToken (snd (login accepting_upstream new_adapter example_credentials)) = JStr ''abc''
   \<and> authToken (snd (login accepting_upstream new_adapter example_credentials)) \<noteq> authToken new_adapter"
proof -
  have h0: "\<forall>credentials. GetUsers \<noteq> Login credentials" by simp
  have hr: "request_interceptor new_adapter (axios_config POST ''/user/login'' example_credentials)
       = Some (axios_config POST ''/user/login'' example_credentials)"
    by (simp add: request_interceptor_def new_adapter_def)
  have h1: "fst (login rejecting_upstream new_adapter example_credentials)
       = Inl (EOSApiError ''Invalid credentials'' 401
               (JObj [(''success'', JBool False), (''message'', JStr ''Invalid credentials'')]))"
    by (simp add: login_cases hr rejecting_upstream_def validateStatus_def opt_prop_lookup
          js_or_def new_EOSApiError_def rethrow_simps)
  have h2: "accepting_upstream (axios_config POST ''/user/login'' example_credentials)
       = HttpResponse 200 example_login_body"
    by (simp add: accepting_upstream_def axios_config_def)
  have h3: "validateStatus 200" by (simp add: validateStatus_def)
  have h4: "truthy (lookup example_login_body ''success'')"
    and h5: "truthy (lookup (lookup example_login_body ''data'') ''token'')"
    and h6: "lookup (lookup example_login_body ''data'') ''token'' = JStr ''abc''"
    by (simp_all add: example_login_body_def)
  have h7: "authToken new_adapter = JNull" by (simp add: new_adapter_def)
  note ok = token_changed_only_by_login_and_setters
         [of GetUsers accepting_upstream new_adapter example_credentials
            "EOSApiError [] 0 JNull" "axios_config POST ''/user/login'' example_credentials"
            200 example_login_body JNull]
  note ko = token_changed_only_by_login_and_setters
         [of GetUsers rejecting_upstream new_adapter example_credentials
            "EOSApiError ''Invalid credentials'' 401
               (JObj [(''success'', JBool False), (''message'', JStr ''Invalid credentials'')])"
            "axios_config POST ''/user/login'' example_credentials"
            200 example_login_body JNull]
  from ok h0 have c1: "authToken (snd (run_call accepting_upstream new_adapter GetUsers)) = authToken new_adapter"
    by blast
  from ko h1 have c2: "authToken (snd (login rejecting_upstream new_adapter example_credentials)) = authToken new_adapter"
    by blast
  from ok hr h2 h3 h4 h5 have c3: "authToken (snd (login accepting_upstream new_adapter example_credentials))
      = lookup (lookup example_login_body ''data'') ''token''"
    by blast
  from c1 c2 c3 h0 hr h1 h2 h3 h4 h5 h6 h7 show ?thesis by simp
qed

text \<open>
  Against the claim as first stated (the token changes only by a successful login): the
  setters change it with no login at all.
\<close>

theorem setters_change_token_without_login:
  "authToken new_adapter = JNull
   \<and> authToken (setAuthToken (JStr ''abc'') new_adapter) = JStr ''abc''
   \<and> authToken (clearAuthToken (setAuthToken (JStr ''abc'') new_adapter)) = JNull"
  by (simp add: new_adapter_def setAuthToken_def clearAuthToken_def)

subsection \<open>C7: the role of an invitation\<close>

text \<open>
  Claim C7, as the code has it. No path checks the role of an invitation against
  \<^verbatim>\<open>admin\<close>, \<^verbatim>\<open>manager\<close>, \<^verbatim>\<open>user\<close>: the adapter's \<^verbatim>\<open>inviteUser\<close> and the
  \<^verbatim>\<open>eos_invite_user\<close> handler send every request upstream as it is, and
  \<^verbatim>\<open>POST /users/invite\<close> sends it upstream whenever \<^verbatim>\<open>email\<close> and \<^verbatim>\<open>role\<close> are
  both non-empty, rejecting locally (400, no upstream request) only a missing or empty
  \<^verbatim>\<open>email\<close> or \<^verbatim>\<open>role\<close>. The closed set is the \<^verbatim>\<open>enum\<close> that the input schema of
  \<^verbatim>\<open>eos_invite_user\<close> declares for \<^verbatim>\<open>role\<close>, and nothing more. (What goes upstream
  is the request as it is when no token is stored, and with the bearer header when the
  stored token is a non-empty string.)
\<close>

theorem invite_role_is_not_checked:
  "sent (snd (inviteUser up a body))
     = sent a @ outgoing a (axios_config POST ''/users/invite'' body)
   \<and> sent (snd (invite_user_handler up a body))
     = sent a @ outgoing a (axios_config POST ''/users/invite'' body)
   \<and> (truthy (lookup body ''email'') \<and> truthy (lookup body ''role'') \<longrightarrow>
        sent (snd (post_users_invite up a body))
          = sent a @ outgoing a (axios_config POST ''/users/invite'' body))
   \<and> (\<not> truthy (authToken a) \<longrightarrow> outgoing a config = [config])
   \<and> (authToken a = JStr t \<and> t \<noteq> [] \<longrightarrow>
        outgoing a config = [config\<lparr>req_authorization := Some (''Bearer '' @ t)\<rparr>])
   \<and> (\<not> nullish body \<and> (\<not> truthy (lookup body ''email'') \<or> \<not> truthy (lookup body ''role'')) \<longrightarrow>
        post_users_invite up a body = (bad_request ''Email and role are required'', a))
   \<and> lookup (lookup (lookup (inputSchema getInviteUserTool) ''properties'') ''role'') ''enum''
       = JArr [JStr ''admin'', JStr ''manager'', JStr ''user'']"
proof (intro conjI impI)
  show "sent (snd (inviteUser up a body))
     = sent a @ outgoing a (axios_config POST ''/users/invite'' body)"
    by (rule inviteUser_sent)
  show "sent (snd (invite_user_handler up a body))
     = sent a @ outgoing a (axios_config POST ''/users/invite'' body)"
    by (rule handler_sent)
  show "lookup (lookup (lookup (inputSchema getInviteUserTool) ''properties'') ''role'') ''enum''
       = JArr [JStr ''admin'', JStr ''manager'', JStr ''user'']"
    by (rule invite_role_enum)
next
  assume "truthy (lookup body ''email'') \<and> truthy (lookup body ''role'')"
  then show "sent (snd (post_users_invite up a body))
          = sent a @ outgoing a (axios_config POST ''/users/invite'' body)"
    by (simp add: post_users_invite_forwards)
next
  assume "\<not> truthy (authToken a)"
  then show "outgoing a config = [config]" by (rule outgoing_without_token)
next
  assume "authToken a = JStr t \<and> t \<noteq> []"
  then show "outgoing a config = [config\<lparr>req_authorization := Some (''Bearer '' @ t)\<rparr>]"
    by (simp add: outgoing_string_token)
next
  assume "\<not> nullish body \<and> (\<not> truthy (lookup body ''email'') \<or> \<not> truthy (lookup body ''role''))"
  then show "post_users_invite up a body = (bad_request ''Email and role are required'', a)"
    by (auto simp add: post_users_invite_def get_prop_def)
qed

text \<open>The theorem at an invitation with the role \<^verbatim>\<open>superuser\<close> and at one with no role.\<close>

theorem invite_role_is_not_checked_witness:
  "truthy (lookup (JObj [(''email'', JStr ''new@eigital.com''), (''role'', JStr ''superuser'')]) ''email'')
   \<and> truthy (lookup (JObj [(''email'', JStr ''new@eigital.com''), (''role'', JStr ''superuser'')]) ''role'')
   \<and> \<not> truthy (authToken new_adapter)
   \<and> sent (snd (post_users_invite accepting_upstream new_adapter
                   (JObj [(''email'', JStr ''new@eigital.com''), (''role'', JStr ''superuser'')])))
       = [axios_config POST ''/users/invite''
            (JObj [(''email'', JStr ''new@eigital.com''), (''role'', JStr ''superuser'')])]
   \<and> \<not> nullish (JObj [(''email'', JStr ''new@eigital.com'')])
   \<and> \<not> truthy (lookup (JObj [(''email'', JStr ''new@eigital.com'')]) ''role'')
   \<and> post_users_invite accepting_upstream new_adapter (JObj [(''email'', JStr ''new@eigital.com'')])
       = (bad_request ''Email and role are required'', new_adapter)"
proof -
  have t: "\<not> truthy (authToken new_adapter)" by (simp add: new_adapter_def)
  have s: "sent new_adapter = []" by (simp add: new_adapter_def)
  note full = invite_role_is_not_checked
          [of accepting_upstream new_adapter
              "JObj [(''email'', JStr ''new@eigital.com''), (''role'', JStr ''superuser'')]"
              "axios_config POST ''/users/invite''
                 (JObj [(''email'', JStr ''new@eigital.com''), (''role'', JStr ''superuser'')])"
              "[]"]
  note bare = invite_role_is_not_checked
          [of accepting_upstream new_adapter "JObj [(''email'', JStr ''new@eigital.com'')]"
              "axios_config POST ''/users/invite'' (JObj [(''email'', JStr ''new@eigital.com'')])"
              "[]"]
  from full bare t s show ?thesis by simp
qed

text \<open>
  Against the claim as first stated (a role outside the set fails locally and is not
  forwarded): \<^verbatim>\<open>POST /users/invite\<close> with the role \<^verbatim>\<open>superuser\<close> sends the request
  upstream and answers 200.
\<close>

theorem rest_invite_forwards_unlisted_role:
  "post_users_invite accepting_upstream new_adapter
       (JObj [(''email'', JStr ''new@eigital.com''), (''role'', JStr ''superuser'')]) =
     ((JNum 200, JObj [(''success'', JBool True)]),
      \<lparr>authToken = JNull,
       sent = [\<lparr>req_method = POST, req_url = ''/users/invite'',
                req_body = JObj [(''email'', JStr ''new@eigital.com''), (''role'', JStr ''superuser'')],
                req_authorization = None\<rparr>]\<rparr>)"
  by (simp add: post_users_invite_def inviteUser_def api_request_cases get_prop_def example_defs)

subsection \<open>C8: \<^verbatim>\<open>healthCheck\<close> never raises\<close>

text \<open>
  Claim C8. \<^verbatim>\<open>healthCheck\<close> returns a value whatever the upstream does, never an
  exception: \<^verbatim>\<open>true\<close> when the \<^verbatim>\<open>GET /health\<close> is answered with a 2xx, and
  \<^verbatim>\<open>false\<close> for every other status, when no response arrives and when the request
  could not be made. It sends at most that one request and leaves the token alone.
\<close>

theorem healthCheck_total:
  "healthCheck up a =
     (Inr (JBool (case request_interceptor a (axios_config GET ''/health'' JUndefined) of
                    None \<Rightarrow> False
                  | Some r \<Rightarrow>
                      (case up r of
                         HttpResponse s d \<Rightarrow> validateStatus s
                       | NoResponse msg \<Rightarrow> False))),
      a\<lparr>sent := sent a @ outgoing a (axios_config GET ''/health'' JUndefined)\<rparr>)"
  by (simp add: healthCheck_def api_request_cases outgoing_def split: wire.splits option.splits)

text \<open>The theorem against a 200, a 401 and a timeout.\<close>

theorem healthCheck_total_witness:
  "healthCheck accepting_upstream new_adapter
     = (Inr (JBool True), \<lparr>authToken = JNull, sent = [axios_config GET ''/health'' JUndefined]\<rparr>)
   \<and> healthCheck rejecting_upstream new_adapter
     = (Inr (JBool False), \<lparr>authToken = JNull, sent = [axios_config GET ''/health'' JUndefined]\<rparr>)
   \<and> healthCheck offline_upstream new_adapter
     = (Inr (JBool False), \<lparr>authToken = JNull, sent = [axios_config GET ''/health'' JUndefined]\<rparr>)"
  using healthCheck_total [of accepting_upstream new_adapter]
        healthCheck_total [of rejecting_upstream new_adapter]
        healthCheck_total [of offline_upstream new_adapter]
  by (simp add: example_defs)

subsection \<open>C9: \<^verbatim>\<open>getUsers\<close> without a data field\<close>



subsection \<open>C10: \<^verbatim>\<open>getCurrentUser\<close> without a data field\<close>



end
